theory Spec2Isabelle
  imports Complex_Main "HOL-Library.Sublist"
begin

section \<open>Python values as the ingestion thread sees them\<close>

text \<open>
  \<^verbatim>\<open>json.loads\<close> returns \<^verbatim>\<open>None\<close>, a bool, a number, a string, a list or a dict.
  A finite number is modelled by its value (Python compares ints and finite floats exactly,
  so \<open>20\<close> and \<open>20.0\<close> behave alike in every comparison of \<^verbatim>\<open>server.py\<close>); the three
  non-finite floats that \<^verbatim>\<open>json.loads\<close> accepts are kept apart.
  A dict is the list of its items, looked up with \<open>map_of\<close>.
\<close>

datatype number = Finite rat | PosInf | NegInf | NaN

datatype json =
    JNull
  | JBool bool
  | JNum number
  | JStr string
  | JArr "json list"
  | JObj "(string \<times> json) list"

datatype py_error =
    JSONDecodeError
  | TypeError
  | AttributeError
  | KeyError
  | OtherException

text \<open>\<^verbatim>\<open>x > c\<close> and \<^verbatim>\<open>x < c\<close> for a float \<open>x\<close> and an int literal \<open>c\<close>.\<close>

fun num_gt :: "number \<Rightarrow> rat \<Rightarrow> bool" where
  "num_gt (Finite r) c = (c < r)"
| "num_gt PosInf c = True"
| "num_gt NegInf c = False"
| "num_gt NaN c = False"

fun num_lt :: "number \<Rightarrow> rat \<Rightarrow> bool" where
  "num_lt (Finite r) c = (r < c)"
| "num_lt PosInf c = False"
| "num_lt NegInf c = True"
| "num_lt NaN c = False"

text \<open>
  The same comparisons on an arbitrary decoded value: a bool is an int in Python,
  every other non-number raises \<^verbatim>\<open>TypeError\<close>.
\<close>

fun py_gt :: "json \<Rightarrow> rat \<Rightarrow> py_error + bool" where
  "py_gt (JNum x) c = Inr (num_gt x c)"
| "py_gt (JBool b) c = Inr (c < (if b then 1 else 0))"
| "py_gt JNull c = Inl TypeError"
| "py_gt (JStr s) c = Inl TypeError"
| "py_gt (JArr xs) c = Inl TypeError"
| "py_gt (JObj kvs) c = Inl TypeError"

fun py_lt :: "json \<Rightarrow> rat \<Rightarrow> py_error + bool" where
  "py_lt (JNum x) c = Inr (num_lt x c)"
| "py_lt (JBool b) c = Inr ((if b then 1 else 0) < c)"
| "py_lt JNull c = Inl TypeError"
| "py_lt (JStr s) c = Inl TypeError"
| "py_lt (JArr xs) c = Inl TypeError"
| "py_lt (JObj kvs) c = Inl TypeError"

text \<open>\<^verbatim>\<open>k in s\<close> for two strings: \<open>k\<close> occurs in \<open>s\<close> as a contiguous piece.\<close>

fun str_contains :: "string \<Rightarrow> string \<Rightarrow> bool" where
  "str_contains [] k = (k = [])"
| "str_contains (c # cs) k = (prefix k (c # cs) \<or> str_contains cs k)"

text \<open>
  \<^verbatim>\<open>k in data\<close> with a string \<open>k\<close>: key membership on a dict, substring test on a string,
  element membership on a list, \<^verbatim>\<open>TypeError\<close> on \<^verbatim>\<open>None\<close>, bools and numbers.
\<close>

fun py_in :: "string \<Rightarrow> json \<Rightarrow> py_error + bool" where
  "py_in k (JObj kvs) = Inr (k \<in> set (map fst kvs))"
| "py_in k (JStr s) = Inr (str_contains s k)"
| "py_in k (JArr xs) = Inr (JStr k \<in> set xs)"
| "py_in k JNull = Inl TypeError"
| "py_in k (JBool b) = Inl TypeError"
| "py_in k (JNum x) = Inl TypeError"

text \<open>\<^verbatim>\<open>data[k]\<close> with a string \<open>k\<close>: only a dict can be indexed by a string.\<close>

fun py_getitem :: "json \<Rightarrow> string \<Rightarrow> py_error + json" where
  "py_getitem (JObj kvs) k = (case map_of kvs k of None \<Rightarrow> Inl KeyError | Some v \<Rightarrow> Inr v)"
| "py_getitem JNull k = Inl TypeError"
| "py_getitem (JBool b) k = Inl TypeError"
| "py_getitem (JNum x) k = Inl TypeError"
| "py_getitem (JStr s) k = Inl TypeError"
| "py_getitem (JArr xs) k = Inl TypeError"

text \<open>\<^verbatim>\<open>data.get(k, d)\<close>: only a dict has the method.\<close>

fun py_get :: "json \<Rightarrow> string \<Rightarrow> json \<Rightarrow> py_error + json" where
  "py_get (JObj kvs) k d = Inr (case map_of kvs k of None \<Rightarrow> d | Some v \<Rightarrow> v)"
| "py_get JNull k d = Inl AttributeError"
| "py_get (JBool b) k d = Inl AttributeError"
| "py_get (JNum x) k d = Inl AttributeError"
| "py_get (JStr s) k d = Inl AttributeError"
| "py_get (JArr xs) k d = Inl AttributeError"

section \<open>The live snapshot, the two tables and the link\<close>

text \<open>
  \<^verbatim>\<open>current_data\<close> is a dict with nine fixed keys; no key is ever added or removed, so it is
  a record. A value assigned from a decoded line can be any decoded value, hence \<open>json\<close>.
\<close>

record snapshot =
  temperature :: json
  humidity :: json
  dust :: json
  pressure :: json
  time :: string
  status :: string
  alert :: json
  connected :: bool
  tracker :: json

definition current_data_init :: snapshot where
  "current_data_init =
     \<lparr> temperature = JNum (Finite 0),
       humidity = JNum (Finite 0),
       dust = JNum (Finite 0),
       pressure = JNum (Finite 0),
       time = ''--:--:--'',
       status = ''Starting...'',
       alert = JStr '''',
       connected = False,
       tracker = JObj
         [(''angle'', JNum (Finite 90)),
          (''ldr_left'', JNum (Finite 0)),
          (''ldr_right'', JNum (Finite 0)),
          (''diff'', JNum (Finite 0)),
          (''action'', JStr ''CENTER''),
          (''status'', JStr ''INITIALIZING'')] \<rparr>"

text \<open>
  A row of table \<^verbatim>\<open>readings\<close> and a row of table \<^verbatim>\<open>alerts\<close> (the autoincrement id is the
  position in the list). The \<^verbatim>\<open>timestamp\<close> column is filled by the store
  (\<^verbatim>\<open>DEFAULT CURRENT_TIMESTAMP\<close>); it is counted in seconds, which orders like SQLite's
  fixed-width \<^verbatim>\<open>YYYY-MM-DD HH:MM:SS\<close> text. The other columns hold the values bound to the
  insert.
\<close>

record readings_row =
  r_timestamp :: int
  r_temperature :: json
  r_humidity :: json
  r_dust_density :: json
  r_air_pressure :: json
  r_tracker_angle :: json
  r_ldr_left :: json
  r_ldr_right :: json
  r_light_diff :: json
  r_tracker_status :: json
  r_status :: string

record alerts_row =
  a_timestamp :: int
  a_message :: string
  a_level :: string

text \<open>
  Where the thread of \<^verbatim>\<open>read_arduino\<close> stands: at the top of the outer loop
  (\<open>Discovering\<close>), in the body of the probing loop with \<^verbatim>\<open>timeout_counter = n\<close>
  (\<open>Probing n\<close>, the guard \<^verbatim>\<open>timeout_counter < 10\<close> passed), or at the top of the read
  loop (\<open>Connected\<close>).
\<close>

datatype link_state = Discovering | Probing nat | Connected

record state =
  current_data :: snapshot
  readings :: "readings_row list"
  alerts :: "alerts_row list"
  link :: link_state
  ser_open :: bool
  arduino_found :: bool
  slept :: nat

text \<open>
  \<open>ser_open\<close>: the handle bound to \<^verbatim>\<open>ser\<close> has been opened and \<^verbatim>\<open>ser.close()\<close> has not
  been called on it. \<open>slept\<close>: the total of all \<^verbatim>\<open>time.sleep\<close> calls so far, in tenths of a
  second.
\<close>

text \<open>
  What the world outside the thread supplies during one loop iteration: the result of
  \<^verbatim>\<open>json.loads\<close> on a line, \<^verbatim>\<open>str()\<close> of a value inside an f-string, the formatted wall
  clock, the store's \<^verbatim>\<open>CURRENT_TIMESTAMP\<close>, and whether each SQLite insert goes through
  (\<^verbatim>\<open>save_alert\<close> and \<^verbatim>\<open>save_reading\<close> catch every exception, a value SQLite cannot bind
  included, and return \<^verbatim>\<open>False\<close>). \<open>py_str\<close> is asked once per line, so it may print \<open>20\<close>
  and \<open>20.0\<close> as that line spelled them.
\<close>

record env =
  json_loads :: "string \<Rightarrow> py_error + json"
  py_str :: "json \<Rightarrow> string"
  strftime_now :: string
  current_timestamp :: int
  alert_insert_ok :: bool
  reading_insert_ok :: bool

text \<open>
  What the serial side supplies to one iteration. In the outer loop:
  \<^verbatim>\<open>find_arduino_port()\<close> returned \<^verbatim>\<open>None\<close> or raised, or it returned a port and
  \<^verbatim>\<open>serial.Serial(port, 9600, timeout=2)\<close> succeeded, raised \<^verbatim>\<open>SerialException\<close> or raised
  something else. In the probing and read loops: \<^verbatim>\<open>ser.in_waiting\<close> was zero, or it was
  positive and \<^verbatim>\<open>ser.readline().decode('utf-8', errors='ignore').strip()\<close> gave \<open>line\<close>, or
  the port raised.
\<close>

datatype event =
    FindNone
  | FindRaised
  | OpenOk
  | OpenSerialException
  | OpenRaised
  | InWaitingZero
  | ReadLine string
  | IOSerialException
  | IORaised

section \<open>String constants of the source (non-ASCII characters as UTF-8 bytes)\<close>

definition cross_mark :: string where
  "cross_mark = [CHR 0xE2, CHR 0x9D, CHR 0x8C]"

definition check_mark :: string where
  "check_mark = [CHR 0xE2, CHR 0x9C, CHR 0x93]"

definition status_searching :: string where
  "status_searching = ''Searching for Arduino...''"

definition status_not_connected :: string where
  "status_not_connected = cross_mark @ '' Arduino NOT connected - Check USB!''"

definition status_no_data :: string where
  "status_no_data = cross_mark @ '' No data - Upload sketch!''"

definition status_connected :: string where
  "status_connected = ''Connected '' @ check_mark"

definition status_active :: string where
  "status_active = ''Active '' @ check_mark"

definition status_connection_lost :: string where
  "status_connection_lost = ''Connection lost''"

definition status_serial_error :: string where
  "status_serial_error = ''Serial error''"

definition status_disconnected :: string where
  "status_disconnected = ''Disconnected''"

definition msg_high_temperature :: string where
  "msg_high_temperature = [CHR 0xF0, CHR 0x9F, CHR 0x94, CHR 0xA5] @ '' High temperature!''"

definition msg_high_humidity :: string where
  "msg_high_humidity = [CHR 0xF0, CHR 0x9F, CHR 0x92, CHR 0xA7] @ '' High humidity!''"

definition msg_poor_air :: string where
  "msg_poor_air =
     [CHR 0xF0, CHR 0x9F, CHR 0x8C, CHR 0xAB, CHR 0xEF, CHR 0xB8, CHR 0x8F] @ '' Poor air quality!''"

definition msg_abnormal_pressure :: string where
  "msg_abnormal_pressure =
     [CHR 0xE2, CHR 0x9A, CHR 0xA0, CHR 0xEF, CHR 0xB8, CHR 0x8F] @ '' Abnormal air pressure!''"

definition msg_all_normal :: string where
  "msg_all_normal = [CHR 0xE2, CHR 0x9C, CHR 0x85] @ '' All systems normal''"

definition degrees_C :: string where
  "degrees_C = [CHR 0xC2, CHR 0xB0] @ ''C''"

definition ug_per_m3 :: string where
  "ug_per_m3 = [CHR 0xC2, CHR 0xB5] @ ''g/m'' @ [CHR 0xC2, CHR 0xB3]"

section \<open>Database operations\<close>

definition save_reading ::
  "env \<Rightarrow> json \<Rightarrow> json \<Rightarrow> json \<Rightarrow> json \<Rightarrow> json \<Rightarrow> json \<Rightarrow> json \<Rightarrow> json \<Rightarrow> json \<Rightarrow> string
     \<Rightarrow> state \<Rightarrow> bool \<times> state" where
  "save_reading env temp hum dust_v pressure_v tracker_angle ldr_left ldr_right light_diff
       tracker_status status_v st =
     (if reading_insert_ok env
      then (True, st\<lparr>readings := readings st @
              [\<lparr> r_timestamp = current_timestamp env,
                 r_temperature = temp,
                 r_humidity = hum,
                 r_dust_density = dust_v,
                 r_air_pressure = pressure_v,
                 r_tracker_angle = tracker_angle,
                 r_ldr_left = ldr_left,
                 r_ldr_right = ldr_right,
                 r_light_diff = light_diff,
                 r_tracker_status = tracker_status,
                 r_status = status_v \<rparr>]\<rparr>)
      else (False, st))"

definition save_alert :: "env \<Rightarrow> string \<Rightarrow> string \<Rightarrow> state \<Rightarrow> bool \<times> state" where
  "save_alert env message level st =
     (if alert_insert_ok env
      then (True, st\<lparr>alerts := alerts st @
              [\<lparr> a_timestamp = current_timestamp env, a_message = message, a_level = level \<rparr>]\<rparr>)
      else (False, st))"

section \<open>The read loop body: one decoded line\<close>

text \<open>
  How one pass through the \<^verbatim>\<open>try\<close> body of the read loop ends: it falls through to
  \<^verbatim>\<open>time.sleep(0.1)\<close>, it leaves by \<^verbatim>\<open>continue\<close>, or it raises.
\<close>

datatype outcome = FallThrough | Continue | Raise py_error

definition sleep :: "nat \<Rightarrow> state \<Rightarrow> state" where
  "sleep tenths st = st\<lparr>slept := slept st + tenths\<rparr>"

text \<open>
  The nine assignments to \<^verbatim>\<open>current_data\<close> that publish a reading, in source order.
  Each is a separate store into the shared dict; a raise leaves the earlier ones in place.
\<close>

definition set_fields :: "env \<Rightarrow> json \<Rightarrow> snapshot \<Rightarrow> py_error option \<times> snapshot" where
  "set_fields env data cd =
     (case py_getitem data ''temp'' of Inl e \<Rightarrow> (Some e, cd) | Inr t \<Rightarrow>
     (let cd = cd\<lparr>temperature := t\<rparr> in
     (case py_getitem data ''hum'' of Inl e \<Rightarrow> (Some e, cd) | Inr h \<Rightarrow>
     (let cd = cd\<lparr>humidity := h\<rparr> in
     (case py_get data ''dust'' (JNum (Finite 0)) of Inl e \<Rightarrow> (Some e, cd) | Inr d \<Rightarrow>
     (let cd = cd\<lparr>dust := d\<rparr> in
     (case py_get data ''pressure'' (JNum (Finite 0)) of Inl e \<Rightarrow> (Some e, cd) | Inr p \<Rightarrow>
     (let cd = cd\<lparr>pressure := p\<rparr>;
          cd = cd\<lparr>time := strftime_now env\<rparr>;
          cd = cd\<lparr>status := status_active\<rparr>;
          cd = cd\<lparr>connected := True\<rparr> in
     (case py_in ''tracker'' data of Inl e \<Rightarrow> (Some e, cd) | Inr has_tracker \<Rightarrow>
     (if has_tracker
      then (case py_getitem data ''tracker'' of Inl e \<Rightarrow> (Some e, cd)
            | Inr tr \<Rightarrow> (None, cd\<lparr>tracker := tr\<rparr>))
      else (None, cd)))))))))))"

text \<open>
  The \<^verbatim>\<open>if\<close>/\<^verbatim>\<open>elif\<close> chain on the thresholds. It returns \<^verbatim>\<open>alert_msg\<close> and the state
  after the \<^verbatim>\<open>save_alert\<close> call of the branch taken, or the exception of a comparison.
\<close>

definition alert_chain :: "env \<Rightarrow> json \<Rightarrow> state \<Rightarrow> py_error + (string \<times> state)" where
  "alert_chain env data st =
     (case py_getitem data ''temp'' of Inl e \<Rightarrow> Inl e | Inr t \<Rightarrow>
     (case py_gt t 40 of Inl e \<Rightarrow> Inl e | Inr temp_high \<Rightarrow>
     (if temp_high
      then Inr (msg_high_temperature,
                snd (save_alert env (''High temperature: '' @ py_str env t @ degrees_C)
                       ''WARNING'' st))
      else
     (case py_getitem data ''hum'' of Inl e \<Rightarrow> Inl e | Inr h \<Rightarrow>
     (case py_gt h 80 of Inl e \<Rightarrow> Inl e | Inr hum_high \<Rightarrow>
     (if hum_high
      then Inr (msg_high_humidity,
                snd (save_alert env (''High humidity: '' @ py_str env h @ ''%'') ''WARNING'' st))
      else
     (case py_get data ''dust'' (JNum (Finite 0)) of Inl e \<Rightarrow> Inl e | Inr d \<Rightarrow>
     (case py_gt d 150 of Inl e \<Rightarrow> Inl e | Inr dust_high \<Rightarrow>
     (if dust_high
      then (case py_get data ''dust'' JNull of Inl e \<Rightarrow> Inl e | Inr d' \<Rightarrow>
            Inr (msg_poor_air,
                 snd (save_alert env (''High dust: '' @ py_str env d' @ ug_per_m3) ''WARNING'' st)))
      else
     (case py_get data ''pressure'' (JNum (Finite 0)) of Inl e \<Rightarrow> Inl e | Inr p \<Rightarrow>
     (case py_gt p 35 of Inl e \<Rightarrow> Inl e | Inr pressure_high \<Rightarrow>
     (case (if pressure_high then Inr True else py_lt p 5) of Inl e \<Rightarrow> Inl e | Inr abnormal \<Rightarrow>
     (if abnormal
      then (case py_get data ''pressure'' JNull of Inl e \<Rightarrow> Inl e | Inr p' \<Rightarrow>
            Inr (msg_abnormal_pressure,
                 snd (save_alert env (''Pressure: '' @ py_str env p' @ ''kPa'') ''WARNING'' st)))
      else Inr (msg_all_normal, st))))))))))))))"

text \<open>
  The five \<^verbatim>\<open>tracker.get\<close> calls that build the arguments of \<^verbatim>\<open>save_reading\<close>, where
  \<^verbatim>\<open>tracker = current_data['tracker']\<close>, and the call itself.
\<close>

definition store_reading :: "env \<Rightarrow> json \<Rightarrow> state \<Rightarrow> py_error option \<times> state" where
  "store_reading env data st =
     (let tr = tracker (current_data st) in
     (case py_getitem data ''temp'' of Inl e \<Rightarrow> (Some e, st) | Inr t \<Rightarrow>
     (case py_getitem data ''hum'' of Inl e \<Rightarrow> (Some e, st) | Inr h \<Rightarrow>
     (case py_get data ''dust'' (JNum (Finite 0)) of Inl e \<Rightarrow> (Some e, st) | Inr d \<Rightarrow>
     (case py_get data ''pressure'' (JNum (Finite 0)) of Inl e \<Rightarrow> (Some e, st) | Inr p \<Rightarrow>
     (case py_get tr ''angle'' (JNum (Finite 90)) of Inl e \<Rightarrow> (Some e, st) | Inr angle \<Rightarrow>
     (case py_get tr ''ldr_left'' (JNum (Finite 0)) of Inl e \<Rightarrow> (Some e, st) | Inr ll \<Rightarrow>
     (case py_get tr ''ldr_right'' (JNum (Finite 0)) of Inl e \<Rightarrow> (Some e, st) | Inr lr \<Rightarrow>
     (case py_get tr ''diff'' (JNum (Finite 0)) of Inl e \<Rightarrow> (Some e, st) | Inr df \<Rightarrow>
     (case py_get tr ''status'' (JStr ''UNKNOWN'') of Inl e \<Rightarrow> (Some e, st) | Inr ts \<Rightarrow>
        (None, snd (save_reading env t h d p angle ll lr df ts ''OK'' st))))))))))))"

text \<open>The branch \<^verbatim>\<open>if 'temp' in data and 'hum' in data\<close>, entered.\<close>

definition publish_reading :: "env \<Rightarrow> json \<Rightarrow> state \<Rightarrow> outcome \<times> state" where
  "publish_reading env data st =
     (case set_fields env data (current_data st) of
        (Some e, cd) \<Rightarrow> (Raise e, st\<lparr>current_data := cd\<rparr>)
      | (None, cd) \<Rightarrow>
          (case alert_chain env data (st\<lparr>current_data := cd\<rparr>) of
             Inl e \<Rightarrow> (Raise e, st\<lparr>current_data := cd\<rparr>)
           | Inr (alert_msg, st1) \<Rightarrow>
               (let st2 = st1\<lparr>current_data := (current_data st1)\<lparr>alert := JStr alert_msg\<rparr>\<rparr> in
                (case store_reading env data st2 of
                   (Some e, st3) \<Rightarrow> (Raise e, st3)
                 | (None, st3) \<Rightarrow> (FallThrough, st3)))))"

text \<open>Python's \<^verbatim>\<open>a in data and b in data\<close>: the second test runs only if the first is true.\<close>

definition both_in :: "string \<Rightarrow> string \<Rightarrow> json \<Rightarrow> py_error + bool" where
  "both_in a b data =
     (case py_in a data of Inl e \<Rightarrow> Inl e | Inr has_a \<Rightarrow>
        (if has_a then py_in b data else Inr False))"

text \<open>Everything after \<^verbatim>\<open>data = json.loads(line)\<close> inside the inner \<^verbatim>\<open>try\<close>.\<close>

definition handle_data :: "env \<Rightarrow> json \<Rightarrow> state \<Rightarrow> outcome \<times> state" where
  "handle_data env data st =
     (case both_in ''status'' ''msg'' data of Inl e \<Rightarrow> (Raise e, st) | Inr control \<Rightarrow>
     (if control
      then (case py_getitem data ''msg'' of Inl e \<Rightarrow> (Raise e, st) | Inr m \<Rightarrow> (Continue, st))
      else
     (case py_in ''error'' data of Inl e \<Rightarrow> (Raise e, st) | Inr has_error \<Rightarrow>
     (if has_error
      then (case py_getitem data ''error'' of Inl e \<Rightarrow> (Raise e, st)
            | Inr err \<Rightarrow> (Continue, st\<lparr>current_data := (current_data st)\<lparr>alert := err\<rparr>\<rparr>))
      else
     (case both_in ''temp'' ''hum'' data of Inl e \<Rightarrow> (Raise e, st) | Inr is_reading \<Rightarrow>
     (if is_reading then publish_reading env data st else (FallThrough, st)))))))"

section \<open>The three loops of \<^verbatim>\<open>read_arduino\<close>, one iteration per event\<close>

text \<open>The handler \<^verbatim>\<open>except Exception\<close> of the read loop: it breaks out to the outer loop.\<close>

definition connection_lost :: "state \<Rightarrow> state" where
  "connection_lost st =
     st\<lparr>current_data := (current_data st)\<lparr>connected := False, status := status_connection_lost\<rparr>,
        link := Discovering\<rparr>"

text \<open>The handler \<^verbatim>\<open>except serial.SerialException\<close> around opening, probing and reading.\<close>

definition serial_error :: "state \<Rightarrow> state" where
  "serial_error st =
     sleep 50
       (st\<lparr>current_data := (current_data st)\<lparr>connected := False, status := status_serial_error\<rparr>,
           link := Discovering\<rparr>)"

text \<open>The outermost handler \<^verbatim>\<open>except Exception\<close>.\<close>

definition connection_error :: "state \<Rightarrow> state" where
  "connection_error st =
     sleep 50
       (st\<lparr>current_data := (current_data st)\<lparr>connected := False, status := status_disconnected\<rparr>,
           link := Discovering\<rparr>)"

text \<open>The branch \<^verbatim>\<open>if port is None\<close>.\<close>

definition no_port :: "state \<Rightarrow> state" where
  "no_port st =
     sleep 50
       (st\<lparr>current_data := (current_data st)\<lparr>connected := False, status := status_not_connected\<rparr>,
           link := Discovering\<rparr>)"

text \<open>The branch \<^verbatim>\<open>if not data_received\<close> after the probing loop.\<close>

definition no_data :: "state \<Rightarrow> state" where
  "no_data st =
     sleep 50
       (st\<lparr>ser_open := False,
           current_data := (current_data st)\<lparr>connected := False, status := status_no_data\<rparr>,
           link := Discovering\<rparr>)"

text \<open>The statements between the probing loop and the read loop, after data was received.\<close>

definition now_connected :: "state \<Rightarrow> state" where
  "now_connected st =
     st\<lparr>current_data := (current_data st)\<lparr>connected := True, status := status_connected\<rparr>,
        link := Connected\<rparr>"

text \<open>
  One pass of the outer loop up to the probing loop: discovery, open, the two second settle
  delay, \<^verbatim>\<open>timeout_counter = 0\<close>.
\<close>

definition discover_iteration :: "event \<Rightarrow> state \<Rightarrow> state" where
  "discover_iteration ev st =
     (case ev of
        FindNone \<Rightarrow> no_port st
      | FindRaised \<Rightarrow> connection_error st
      | OpenOk \<Rightarrow> (sleep 20 (st\<lparr>ser_open := True\<rparr>))\<lparr>link := Probing 0\<rparr>
      | OpenSerialException \<Rightarrow> serial_error st
      | OpenRaised \<Rightarrow> connection_error st
      | _ \<Rightarrow> st)"

text \<open>
  One pass of \<^verbatim>\<open>while timeout_counter < 10\<close> with \<^verbatim>\<open>timeout_counter = n\<close>, followed by the
  guard of the next pass.
\<close>

definition probe_next :: "nat \<Rightarrow> state \<Rightarrow> state" where
  "probe_next n st =
     (let st = sleep 10 st; n = n + 1 in
      if n < 10 then st\<lparr>link := Probing n\<rparr> else no_data st)"

definition probe_iteration :: "event \<Rightarrow> nat \<Rightarrow> state \<Rightarrow> state" where
  "probe_iteration ev n st =
     (case ev of
        InWaitingZero \<Rightarrow> probe_next n st
      | ReadLine line \<Rightarrow>
          if line \<noteq> [] then now_connected (st\<lparr>arduino_found := True\<rparr>) else probe_next n st
      | IOSerialException \<Rightarrow> serial_error st
      | IORaised \<Rightarrow> connection_error st
      | _ \<Rightarrow> st)"

text \<open>One pass of the read loop \<^verbatim>\<open>while True\<close>.\<close>

definition read_iteration :: "env \<Rightarrow> event \<Rightarrow> state \<Rightarrow> state" where
  "read_iteration env ev st =
     (case ev of
        InWaitingZero \<Rightarrow> sleep 1 st
      | ReadLine line \<Rightarrow>
          if line = [] then st
          else (case json_loads env line of
                  Inl e \<Rightarrow> if e = JSONDecodeError then st else connection_lost st
                | Inr data \<Rightarrow>
                    (case handle_data env data st of
                       (FallThrough, st') \<Rightarrow> sleep 1 st'
                     | (Continue, st') \<Rightarrow> st'
                     | (Raise e, st') \<Rightarrow>
                         if e = JSONDecodeError then st' else connection_lost st'))
      | IOSerialException \<Rightarrow> connection_lost st
      | IORaised \<Rightarrow> connection_lost st
      | _ \<Rightarrow> st)"

text \<open>
  One iteration of whichever loop the thread is in. Each loop reads only its own events; an
  event that cannot occur where the thread stands leaves the state as it is.
\<close>

definition step :: "env \<Rightarrow> event \<Rightarrow> state \<Rightarrow> state" where
  "step env ev st =
     (case link st of
        Discovering \<Rightarrow> discover_iteration ev st
      | Probing n \<Rightarrow> probe_iteration ev n st
      | Connected \<Rightarrow> read_iteration env ev st)"

fun run :: "(env \<times> event) list \<Rightarrow> state \<Rightarrow> state" where
  "run [] st = st"
| "run (x # xs) st = run xs (step (fst x) (snd x) st)"

text \<open>
  The state when the thread enters its outer loop: the module-level \<^verbatim>\<open>current_data\<close> after
  the two assignments at the top of \<^verbatim>\<open>read_arduino\<close>, over whatever the database file holds.
\<close>

definition read_arduino_start :: "readings_row list \<Rightarrow> alerts_row list \<Rightarrow> state" where
  "read_arduino_start rs als =
     \<lparr> current_data = current_data_init\<lparr>connected := False, status := status_searching\<rparr>,
       readings = rs,
       alerts = als,
       link = Discovering,
       ser_open = False,
       arduino_found = False,
       slept = 0 \<rparr>"

section \<open>The history query\<close>

text \<open>
  \<^verbatim>\<open>get_history(hours)\<close> selects the rows with
  \<^verbatim>\<open>timestamp > datetime('now', '-' || hours || ' hours')\<close>, newest first, at most 1000 of
  them (rows with equal timestamps come in an order SQLite does not fix; here, the reverse of
  a stable sort). The route converter \<^verbatim>\<open><int:hours>\<close> admits only non-negative integers.
  \<open>db_error\<close> is the text of the exception when SQLite raises; the handler then answers
  with that text instead of rows.
\<close>

record history_item =
  h_timestamp :: int
  h_temperature :: json
  h_humidity :: json
  h_dust :: json
  h_pressure :: json
  h_tracker_angle :: json

definition history_item_of :: "readings_row \<Rightarrow> history_item" where
  "history_item_of row =
     \<lparr> h_timestamp = r_timestamp row,
       h_temperature = r_temperature row,
       h_humidity = r_humidity row,
       h_dust = r_dust_density row,
       h_pressure = r_air_pressure row,
       h_tracker_angle = r_tracker_angle row \<rparr>"

definition select_history :: "int \<Rightarrow> nat \<Rightarrow> readings_row list \<Rightarrow> readings_row list" where
  "select_history now hours rows =
     take 1000 (rev (sort_key r_timestamp
       (filter (\<lambda>row. now - int hours * 3600 < r_timestamp row) rows)))"

definition get_history :: "string option \<Rightarrow> int \<Rightarrow> nat \<Rightarrow> state \<Rightarrow> string + history_item list" where
  "get_history db_error now hours st =
     (case db_error of
        Some e \<Rightarrow> Inl e
      | None \<Rightarrow> Inr (map history_item_of (select_history now hours (readings st))))"

section \<open>The alert evaluator as the specification words it\<close>

text \<open>
  The rule table of the specification: first match wins, in the order temperature,
  humidity, dust, pressure, normal. It is compared below with \<open>alert_chain\<close>, the chain of the
  source.
\<close>

datatype alert_kind = HighTemperature | HighHumidity | PoorAirQuality | AbnormalPressure | Normal

definition evaluate_spec :: "number \<Rightarrow> number \<Rightarrow> number \<Rightarrow> number \<Rightarrow> alert_kind" where
  "evaluate_spec t h d p =
     (if num_gt t 40 then HighTemperature
      else if num_gt h 80 then HighHumidity
      else if num_gt d 150 then PoorAirQuality
      else if num_gt p 35 \<or> num_lt p 5 then AbnormalPressure
      else Normal)"

text \<open>\<^verbatim>\<open>data.get(k, d)\<close> on the items of a dict.\<close>

definition dict_get :: "(string \<times> json) list \<Rightarrow> string \<Rightarrow> json \<Rightarrow> json" where
  "dict_get kvs k d = (case map_of kvs k of None \<Rightarrow> d | Some v \<Rightarrow> v)"

text \<open>
  The snapshot text of each rule, and the row that \<^verbatim>\<open>save_alert\<close> is asked to insert for it
  (the f-string prints the field as the dict holds it, \<^verbatim>\<open>None\<close> when it is absent).
\<close>

fun alert_text :: "alert_kind \<Rightarrow> string" where
  "alert_text HighTemperature = msg_high_temperature"
| "alert_text HighHumidity = msg_high_humidity"
| "alert_text PoorAirQuality = msg_poor_air"
| "alert_text AbnormalPressure = msg_abnormal_pressure"
| "alert_text Normal = msg_all_normal"

fun warning_rows :: "env \<Rightarrow> (string \<times> json) list \<Rightarrow> alert_kind \<Rightarrow> alerts_row list" where
  "warning_rows env kvs HighTemperature =
     [\<lparr> a_timestamp = current_timestamp env,
        a_message = ''High temperature: '' @ py_str env (dict_get kvs ''temp'' JNull) @ degrees_C,
        a_level = ''WARNING'' \<rparr>]"
| "warning_rows env kvs HighHumidity =
     [\<lparr> a_timestamp = current_timestamp env,
        a_message = ''High humidity: '' @ py_str env (dict_get kvs ''hum'' JNull) @ ''%'',
        a_level = ''WARNING'' \<rparr>]"
| "warning_rows env kvs PoorAirQuality =
     [\<lparr> a_timestamp = current_timestamp env,
        a_message = ''High dust: '' @ py_str env (dict_get kvs ''dust'' JNull) @ ug_per_m3,
        a_level = ''WARNING'' \<rparr>]"
| "warning_rows env kvs AbnormalPressure =
     [\<lparr> a_timestamp = current_timestamp env,
        a_message = ''Pressure: '' @ py_str env (dict_get kvs ''pressure'' JNull) @ ''kPa'',
        a_level = ''WARNING'' \<rparr>]"
| "warning_rows env kvs Normal = []"

section \<open>Concrete inputs\<close>

text \<open>
  A decoder that knows one line and one that knows none, a printer, and the environments
  built from them: the clock reads noon, the store's timestamp is 1000, both inserts go
  through.
\<close>

definition loads_one :: "string \<Rightarrow> json \<Rightarrow> string \<Rightarrow> py_error + json" where
  "loads_one l v s = (if s = l then Inr v else Inl JSONDecodeError)"

definition print_any :: "json \<Rightarrow> string" where
  "print_any v = ''<value>''"

definition env_with :: "string \<Rightarrow> json \<Rightarrow> env" where
  "env_with l v =
     \<lparr> json_loads = loads_one l v,
       py_str = print_any,
       strftime_now = ''12:00:00'',
       current_timestamp = 1000,
       alert_insert_ok = True,
       reading_insert_ok = True \<rparr>"

definition loads_nothing :: "string \<Rightarrow> py_error + json" where
  "loads_nothing s = Inl JSONDecodeError"

definition env_quiet :: env where
  "env_quiet =
     \<lparr> json_loads = loads_nothing,
       py_str = print_any,
       strftime_now = ''12:00:00'',
       current_timestamp = 1000,
       alert_insert_ok = True,
       reading_insert_ok = True \<rparr>"

text \<open>The thread has found a port, opened it and seen a first line: it is in the read loop.\<close>

definition connected_state :: state where
  "connected_state =
     run [(env_quiet, OpenOk), (env_quiet, ReadLine ''boot'')]
       (read_arduino_start [] [])"

text \<open>The line \<^verbatim>\<open>{"temp":20,"hum":50}\<close> and its decoded value.\<close>

definition line_plain :: string where
  "line_plain = ''{\"temp\":20,\"hum\":50}''"

definition data_plain :: json where
  "data_plain = JObj [(''temp'', JNum (Finite 20)), (''hum'', JNum (Finite 50))]"

text \<open>The line \<^verbatim>\<open>{"temp":41,"hum":50,"pressure":20,"tracker":{"angle":45}}\<close>.\<close>

definition line_hot :: string where
  "line_hot = ''{\"temp\":41,\"hum\":50,\"pressure\":20,\"tracker\":{\"angle\":45}}''"

definition data_hot :: json where
  "data_hot =
     JObj [(''temp'', JNum (Finite 41)), (''hum'', JNum (Finite 50)),
           (''pressure'', JNum (Finite 20)),
           (''tracker'', JObj [(''angle'', JNum (Finite 45))])]"





section \<open>Dict lookups and the parts of the read loop body\<close>

lemma key_in_iff: "k \<in> fst ` set kvs \<longleftrightarrow> map_of kvs k \<noteq> None"
  by (simp add: map_of_eq_None_iff)

lemma py_get_dict: "py_get (JObj kvs) k d = Inr (dict_get kvs k d)"
  by (simp add: dict_get_def)

lemma py_getitem_dict: "map_of kvs k = Some v \<Longrightarrow> py_getitem (JObj kvs) k = Inr v"
  by simp

lemma dict_get_Some: "map_of kvs k = Some v \<Longrightarrow> dict_get kvs k d = v"
  by (simp add: dict_get_def)

lemma set_fields_dict:
  assumes "map_of kvs ''temp'' = Some t" and "map_of kvs ''hum'' = Some h"
  shows "set_fields env (JObj kvs) cd =
           (None, cd\<lparr>temperature := t, humidity := h,
                     dust := dict_get kvs ''dust'' (JNum (Finite 0)),
                     pressure := dict_get kvs ''pressure'' (JNum (Finite 0)),
                     time := strftime_now env, status := status_active, connected := True,
                     tracker := dict_get kvs ''tracker'' (tracker cd)\<rparr>)"
proof (cases "map_of kvs ''tracker''")
  case None
  then show ?thesis using assms
    by (simp add: set_fields_def py_get_dict key_in_iff dict_get_def Let_def del: py_get.simps)
next
  case (Some v)
  then show ?thesis using assms
    by (simp add: set_fields_def py_get_dict key_in_iff dict_get_def Let_def del: py_get.simps)
qed

lemma alert_chain_dict:
  assumes "map_of kvs ''temp'' = Some (JNum t)" and "map_of kvs ''hum'' = Some (JNum h)"
      and "dict_get kvs ''dust'' (JNum (Finite 0)) = JNum d"
      and "dict_get kvs ''pressure'' (JNum (Finite 0)) = JNum p"
  shows "alert_chain env (JObj kvs) st =
           Inr (alert_text (evaluate_spec t h d p),
                st\<lparr>alerts := alerts st @
                  (if alert_insert_ok env then warning_rows env kvs (evaluate_spec t h d p) else [])\<rparr>)"
  using assms
  by (simp add: alert_chain_def evaluate_spec_def py_get_dict save_alert_def dict_get_Some
        del: py_get.simps)


lemma store_reading_dict:
  assumes "map_of kvs ''temp'' = Some t" and "map_of kvs ''hum'' = Some h"
      and "tracker (current_data st) = JObj trk"
  shows "store_reading env (JObj kvs) st =
           (None,
            if reading_insert_ok env
            then st\<lparr>readings := readings st @
              [\<lparr> r_timestamp = current_timestamp env,
                 r_temperature = t,
                 r_humidity = h,
                 r_dust_density = dict_get kvs ''dust'' (JNum (Finite 0)),
                 r_air_pressure = dict_get kvs ''pressure'' (JNum (Finite 0)),
                 r_tracker_angle = dict_get trk ''angle'' (JNum (Finite 90)),
                 r_ldr_left = dict_get trk ''ldr_left'' (JNum (Finite 0)),
                 r_ldr_right = dict_get trk ''ldr_right'' (JNum (Finite 0)),
                 r_light_diff = dict_get trk ''diff'' (JNum (Finite 0)),
                 r_tracker_status = dict_get trk ''status'' (JStr ''UNKNOWN''),
                 r_status = ''OK'' \<rparr>]\<rparr>
            else st)"
  using assms
  by (simp add: store_reading_def py_get_dict save_reading_def Let_def del: py_get.simps)

lemma handle_data_reading:
  assumes "\<not> (''status'' \<in> fst ` set kvs \<and> ''msg'' \<in> fst ` set kvs)"
      and "''error'' \<notin> fst ` set kvs"
      and "map_of kvs ''temp'' = Some t" and "map_of kvs ''hum'' = Some h"
  shows "handle_data env (JObj kvs) st = publish_reading env (JObj kvs) st"
proof -
  have "''temp'' \<in> fst ` set kvs" "''hum'' \<in> fst ` set kvs"
    using assms(3,4) by (simp_all add: key_in_iff)
  then show ?thesis using assms(1,2)
    by (auto simp: handle_data_def both_in_def)
qed

lemma publish_reading_dict:
  assumes "map_of kvs ''temp'' = Some (JNum t)" and "map_of kvs ''hum'' = Some (JNum h)"
      and "dict_get kvs ''dust'' (JNum (Finite 0)) = JNum d"
      and "dict_get kvs ''pressure'' (JNum (Finite 0)) = JNum p"
      and "dict_get kvs ''tracker'' (tracker (current_data st)) = JObj trk"
  shows "publish_reading env (JObj kvs) st =
     (FallThrough,
      st\<lparr>current_data := (current_data st)
            \<lparr>temperature := JNum t, humidity := JNum h, dust := JNum d, pressure := JNum p,
             time := strftime_now env, status := status_active, connected := True,
             tracker := JObj trk,
             alert := JStr (alert_text (evaluate_spec t h d p))\<rparr>,
         alerts := alerts st @
           (if alert_insert_ok env then warning_rows env kvs (evaluate_spec t h d p) else []),
         readings := readings st @
           (if reading_insert_ok env
            then [\<lparr> r_timestamp = current_timestamp env,
                 r_temperature = JNum t,
                 r_humidity = JNum h,
                 r_dust_density = JNum d,
                 r_air_pressure = JNum p,
                 r_tracker_angle = dict_get trk ''angle'' (JNum (Finite 90)),
                 r_ldr_left = dict_get trk ''ldr_left'' (JNum (Finite 0)),
                 r_ldr_right = dict_get trk ''ldr_right'' (JNum (Finite 0)),
                 r_light_diff = dict_get trk ''diff'' (JNum (Finite 0)),
                 r_tracker_status = dict_get trk ''status'' (JStr ''UNKNOWN''),
                 r_status = ''OK'' \<rparr>]
            else [])\<rparr>)"
  using assms
  by (simp add: publish_reading_def set_fields_dict alert_chain_dict store_reading_dict)

section \<open>Runs of the probing loop\<close>

lemma run_append: "run (xs @ ys) st = run ys (run xs st)"
  by (induction xs arbitrary: st) simp_all

lemma probe_silent_run:
  "link st = Probing n \<Longrightarrow>
   \<forall>x\<in>set evs. snd x = InWaitingZero \<or> snd x = ReadLine [] \<Longrightarrow>
   n + length evs < 10 \<Longrightarrow>
   run evs st = st\<lparr>slept := slept st + 10 * length evs, link := Probing (n + length evs)\<rparr>"
proof (induction evs arbitrary: st n)
  case Nil
  then show ?case by simp
next
  case (Cons x evs)
  have ev: "snd x = InWaitingZero \<or> snd x = ReadLine []" using Cons.prems(2) by simp
  have lt: "Suc n < 10" using Cons.prems(3) by simp
  have s1: "step (fst x) (snd x) st = st\<lparr>slept := slept st + 10, link := Probing (Suc n)\<rparr>"
    using ev lt Cons.prems(1)
    by (auto simp: step_def probe_iteration_def probe_next_def sleep_def Let_def)
  have "run evs (step (fst x) (snd x) st) =
          (step (fst x) (snd x) st)\<lparr>slept := slept (step (fst x) (snd x) st) + 10 * length evs,
             link := Probing (Suc n + length evs)\<rparr>"
    by (rule Cons.IH) (use Cons.prems s1 in auto)
  then show ?case by (simp add: s1)
qed

lemma stays_offline:
  "link st \<noteq> Connected \<Longrightarrow> \<not> connected (current_data st) \<Longrightarrow>
   \<forall>x\<in>set evs. \<forall>line. snd x = ReadLine line \<longrightarrow> line = [] \<Longrightarrow>
   link (run evs st) \<noteq> Connected \<and> \<not> connected (current_data (run evs st))"
proof (induction evs arbitrary: st)
  case Nil
  then show ?case by simp
next
  case (Cons x evs)
  have "link (step (fst x) (snd x) st) \<noteq> Connected \<and> \<not> connected (current_data (step (fst x) (snd x) st))"
    using Cons.prems
    by (cases "link st"; cases "snd x")
       (auto simp: step_def discover_iteration_def probe_iteration_def probe_next_def no_port_def
          no_data_def serial_error_def connection_error_def sleep_def Let_def)
  then show ?case using Cons.IH Cons.prems(3) by simp
qed

lemma open_step:
  "link st = Discovering \<Longrightarrow>
   step env OpenOk st = st\<lparr>ser_open := True, slept := slept st + 20, link := Probing 0\<rparr>"
  by (simp add: step_def discover_iteration_def sleep_def)

lemma probe_run_quiet:
  assumes "link st = Discovering"
      and "\<forall>x\<in>set polls. snd x = InWaitingZero \<or> snd x = ReadLine []"
      and "length polls < 10"
  shows "run ((env, OpenOk) # polls) st =
           st\<lparr>ser_open := True, slept := slept st + 20 + 10 * length polls,
              link := Probing (length polls)\<rparr>"
proof -
  let ?s = "st\<lparr>ser_open := True, slept := slept st + 20, link := Probing 0\<rparr>"
  have "run polls ?s = ?s\<lparr>slept := slept ?s + 10 * length polls, link := Probing (0 + length polls)\<rparr>"
    by (rule probe_silent_run) (use assms in auto)
  then show ?thesis using assms(1) by (simp add: open_step)
qed

lemma probe_run_data:
  assumes "link st = Discovering"
      and "\<forall>x\<in>set polls. snd x = InWaitingZero \<or> snd x = ReadLine []"
      and "length polls < 10" and "line \<noteq> []"
  shows "run ((env, OpenOk) # polls @ [(env', ReadLine line)]) st =
           st\<lparr>ser_open := True, slept := slept st + 20 + 10 * length polls,
              arduino_found := True,
              current_data := (current_data st)\<lparr>connected := True, status := status_connected\<rparr>,
              link := Connected\<rparr>"
proof -
  let ?mid = "st\<lparr>ser_open := True, slept := slept st + 20 + 10 * length polls,
                 link := Probing (length polls)\<rparr>"
  have "run ((env, OpenOk) # polls @ [(env', ReadLine line)]) st =
          run (((env, OpenOk) # polls) @ [(env', ReadLine line)]) st"
    by simp
  also have "\<dots> = run [(env', ReadLine line)] (run ((env, OpenOk) # polls) st)"
    by (rule run_append)
  also have "\<dots> = run [(env', ReadLine line)] ?mid"
    by (simp only: probe_run_quiet [OF assms(1,2,3)])
  also have "\<dots> = st\<lparr>ser_open := True, slept := slept st + 20 + 10 * length polls,
              arduino_found := True,
              current_data := (current_data st)\<lparr>connected := True, status := status_connected\<rparr>,
              link := Connected\<rparr>"
    using assms(4) by (simp add: step_def probe_iteration_def now_connected_def)
  finally show ?thesis .
qed

lemma probe_run_timeout:
  assumes "link st = Discovering"
      and "\<forall>x\<in>set polls. snd x = InWaitingZero \<or> snd x = ReadLine []"
      and "length polls = 10"
  shows "run ((env, OpenOk) # polls) st =
           st\<lparr>ser_open := False, slept := slept st + 170,
              current_data := (current_data st)\<lparr>connected := False, status := status_no_data\<rparr>,
              link := Discovering\<rparr>"
proof -
  obtain ys y where polls: "polls = ys @ [y]"
    using assms(3) by (cases polls rule: rev_cases) auto
  have len: "length ys = 9" using assms(3) polls by simp
  have quiet: "\<forall>x\<in>set ys. snd x = InWaitingZero \<or> snd x = ReadLine []"
    using assms(2) polls by simp
  have y: "snd y = InWaitingZero \<or> snd y = ReadLine []" using assms(2) polls by simp
  have "run ((env, OpenOk) # polls) st = run [y] (run ((env, OpenOk) # ys) st)"
    using run_append [of "(env, OpenOk) # ys" "[y]" st] polls by simp
  also have "run ((env, OpenOk) # ys) st =
      st\<lparr>ser_open := True, slept := slept st + 20 + 10 * length ys, link := Probing (length ys)\<rparr>"
    by (rule probe_run_quiet) (use assms(1) quiet len in auto)
  finally show ?thesis using y len
    by (auto simp: step_def probe_iteration_def probe_next_def no_data_def sleep_def Let_def)
qed

section \<open>One line in the read loop\<close>

lemma connected_state_eq:
  "connected_state =
     \<lparr> current_data = current_data_init\<lparr>connected := True, status := status_connected\<rparr>,
       readings = [], alerts = [], link = Connected, ser_open = True, arduino_found = True,
       slept = 20 \<rparr>"
  by (simp add: connected_state_def read_arduino_start_def step_def discover_iteration_def
        probe_iteration_def now_connected_def sleep_def)

lemma loads_one_same: "json_loads (env_with l v) l = Inr v"
  by (simp add: env_with_def loads_one_def)

lemma store_reading_frame:
  "alerts (snd (store_reading env data st)) = alerts st \<and>
   current_data (snd (store_reading env data st)) = current_data st \<and>
   link (snd (store_reading env data st)) = link st"
  by (simp add: store_reading_def save_reading_def Let_def split: sum.splits)

lemma read_line_step:
  assumes "link st = Connected" and "line \<noteq> []" and "json_loads env line = Inr data"
  shows "step env (ReadLine line) st =
           (case handle_data env data st of
              (FallThrough, st') \<Rightarrow> sleep 1 st'
            | (Continue, st') \<Rightarrow> st'
            | (Raise e, st') \<Rightarrow> if e = JSONDecodeError then st' else connection_lost st')"
  using assms by (simp add: step_def read_iteration_def)

lemma store_reading_frameD:
  "store_reading env data s = (r, s') \<Longrightarrow>
   alerts s' = alerts s \<and> current_data s' = current_data s \<and> link s' = link s"
  using store_reading_frame [of env data s] by simp

lemma read_line_effect:
  assumes "link st = Connected" and "line \<noteq> []" and "json_loads env line = Inr data"
  shows "alerts (step env (ReadLine line) st) = alerts (snd (handle_data env data st))
       \<and> readings (step env (ReadLine line) st) = readings (snd (handle_data env data st))
       \<and> alert (current_data (step env (ReadLine line) st)) =
           alert (current_data (snd (handle_data env data st)))"
  by (simp add: read_line_step [OF assms] sleep_def connection_lost_def
        split: prod.splits outcome.splits)

section \<open>The alert rules\<close>

text \<open>
  C2. A line that decodes to a dict with numeric \<^verbatim>\<open>temp\<close> and \<^verbatim>\<open>hum\<close> (and numeric
  \<^verbatim>\<open>dust\<close> and \<^verbatim>\<open>pressure\<close> where present, 0 where absent), and that is neither a control
  message nor an error message, is evaluated by the source's chain exactly as the rule table
  of the specification says: the chain never raises, the snapshot's alert text is the text of
  the first matching rule, and the alerts table grows by the one WARNING row of that rule,
  by nothing in the normal case (and by nothing when SQLite refuses the insert).
\<close>

theorem alert_rules_first_match:
  assumes "link st = Connected" and "line \<noteq> []" and "json_loads env line = Inr (JObj kvs)"
      and "\<not> (''status'' \<in> fst ` set kvs \<and> ''msg'' \<in> fst ` set kvs)"
      and "''error'' \<notin> fst ` set kvs"
      and "map_of kvs ''temp'' = Some (JNum t)" and "map_of kvs ''hum'' = Some (JNum h)"
      and "dict_get kvs ''dust'' (JNum (Finite 0)) = JNum d"
      and "dict_get kvs ''pressure'' (JNum (Finite 0)) = JNum p"
  shows "alert_chain env (JObj kvs) st =
           Inr (alert_text (evaluate_spec t h d p),
                st\<lparr>alerts := alerts st @
                  (if alert_insert_ok env then warning_rows env kvs (evaluate_spec t h d p)
                   else [])\<rparr>)
       \<and> alert (current_data (step env (ReadLine line) st)) =
           JStr (alert_text (evaluate_spec t h d p))
       \<and> alerts (step env (ReadLine line) st) =
           alerts st @
             (if alert_insert_ok env then warning_rows env kvs (evaluate_spec t h d p) else [])"
proof -
  let ?k = "evaluate_spec t h d p"
  define rows where "rows = (if alert_insert_ok env then warning_rows env kvs ?k else [])"
  have chain: "\<And>s. alert_chain env (JObj kvs) s = Inr (alert_text ?k, s\<lparr>alerts := alerts s @ rows\<rparr>)"
    unfolding rows_def by (rule alert_chain_dict [OF assms(6,7,8,9)])
  have hd: "handle_data env (JObj kvs) st = publish_reading env (JObj kvs) st"
    by (rule handle_data_reading [OF assms(4,5,6,7)])
  obtain cd where sf: "set_fields env (JObj kvs) (current_data st) = (None, cd)"
    using set_fields_dict [OF assms(6,7)] by blast
  have pub: "alerts (snd (publish_reading env (JObj kvs) st)) = alerts st @ rows
           \<and> alert (current_data (snd (publish_reading env (JObj kvs) st))) = JStr (alert_text ?k)"
    by (auto simp: publish_reading_def sf chain split: prod.splits option.splits
          dest!: store_reading_frameD)
  have "alerts (step env (ReadLine line) st) = alerts st @ rows
      \<and> alert (current_data (step env (ReadLine line) st)) = JStr (alert_text ?k)"
    using pub read_line_effect [OF assms(1,2,3)] hd by simp
  then show ?thesis using chain [of st] unfolding rows_def by simp
qed

theorem alert_rules_first_match_witness:
  "link connected_state = Connected \<and> line_hot \<noteq> []
   \<and> json_loads (env_with line_hot data_hot) line_hot = Inr data_hot
   \<and> evaluate_spec (Finite 41) (Finite 50) (Finite 0) (Finite 20) = HighTemperature
   \<and> alert (current_data (step (env_with line_hot data_hot) (ReadLine line_hot) connected_state)) =
       JStr msg_high_temperature
   \<and> alerts (step (env_with line_hot data_hot) (ReadLine line_hot) connected_state) =
       [\<lparr> a_timestamp = 1000,
          a_message = ''High temperature: <value>'' @ degrees_C,
          a_level = ''WARNING'' \<rparr>]"
proof -
  let ?kvs = "[(''temp'', JNum (Finite 41)), (''hum'', JNum (Finite 50)),
           (''pressure'', JNum (Finite 20)),
           (''tracker'', JObj [(''angle'', JNum (Finite 45))])]"
  have h1: "link connected_state = Connected" by (simp add: connected_state_eq)
  have h2: "line_hot \<noteq> []" by (simp add: line_hot_def)
  have h3: "json_loads (env_with line_hot data_hot) line_hot = Inr (JObj ?kvs)"
    by (simp add: loads_one_same data_hot_def)
  have h4: "\<not> (''status'' \<in> fst ` set ?kvs \<and> ''msg'' \<in> fst ` set ?kvs)" by simp
  have h5: "''error'' \<notin> fst ` set ?kvs" by simp
  have h6: "map_of ?kvs ''temp'' = Some (JNum (Finite 41))" by simp
  have h7: "map_of ?kvs ''hum'' = Some (JNum (Finite 50))" by simp
  have h8: "dict_get ?kvs ''dust'' (JNum (Finite 0)) = JNum (Finite 0)" by (simp add: dict_get_def)
  have h9: "dict_get ?kvs ''pressure'' (JNum (Finite 0)) = JNum (Finite 20)"
    by (simp add: dict_get_def)
  have k: "evaluate_spec (Finite 41) (Finite 50) (Finite 0) (Finite 20) = HighTemperature"
    by (simp add: evaluate_spec_def)
  show ?thesis
    using alert_rules_first_match [OF h1 h2 h3 h4 h5 h6 h7 h8 h9] h1 h2 h3 k
    by (simp add: data_hot_def connected_state_eq env_with_def print_any_def dict_get_def)
qed

section \<open>Probing: liveness is confirmed by data\<close>

text \<open>
  C7. From the top of the outer loop with the flag down, once a port opens: the thread
  sleeps the two second settle delay and then polls. After \<open>k < 10\<close> polls without data
  (nothing waiting, or an empty line) it has slept one second per poll and is still probing
  with \<^verbatim>\<open>timeout_counter = k\<close>; a non-empty line at that point takes it to the read loop with
  the flag up and status \<^verbatim>\<open>Connected\<close>; ten polls without data close the port, leave the flag
  down with the no-data status, sleep five seconds and return to discovery. Over any run in
  which no non-empty line arrives, the flag stays down.
\<close>

theorem probing_confirms_liveness:
  assumes "link st = Discovering" and "\<not> connected (current_data st)"
      and "\<forall>x\<in>set polls. snd x = InWaitingZero \<or> snd x = ReadLine []" and "length polls < 10"
      and "\<forall>x\<in>set polls10. snd x = InWaitingZero \<or> snd x = ReadLine []" and "length polls10 = 10"
      and "line \<noteq> []"
      and "\<forall>x\<in>set evs. \<forall>l. snd x = ReadLine l \<longrightarrow> l = []"
  shows "run ((env, OpenOk) # polls) st =
           st\<lparr>ser_open := True, slept := slept st + 20 + 10 * length polls,
              link := Probing (length polls)\<rparr>
       \<and> run ((env, OpenOk) # polls @ [(env', ReadLine line)]) st =
           st\<lparr>ser_open := True, slept := slept st + 20 + 10 * length polls,
              arduino_found := True,
              current_data := (current_data st)\<lparr>connected := True, status := status_connected\<rparr>,
              link := Connected\<rparr>
       \<and> run ((env, OpenOk) # polls10) st =
           st\<lparr>ser_open := False, slept := slept st + 170,
              current_data := (current_data st)\<lparr>connected := False, status := status_no_data\<rparr>,
              link := Discovering\<rparr>
       \<and> \<not> connected (current_data (run evs st))"
  using probe_run_quiet [OF assms(1,3,4)] probe_run_data [OF assms(1,3,4,7)]
    probe_run_timeout [OF assms(1,5,6)] stays_offline [of st evs] assms(1,2,8)
  by simp


theorem probing_confirms_liveness_witness:
  "link (read_arduino_start [] []) = Discovering
   \<and> \<not> connected (current_data (read_arduino_start [] []))
   \<and> length (replicate 3 (env_quiet, InWaitingZero)) < 10
   \<and> length (replicate 10 (env_quiet, ReadLine [])) = 10
   \<and> link (run ((env_quiet, OpenOk) # replicate 3 (env_quiet, InWaitingZero))
              (read_arduino_start [] [])) = Probing 3
   \<and> connected (current_data
        (run ((env_quiet, OpenOk) # replicate 3 (env_quiet, InWaitingZero)
                @ [(env_with line_plain data_plain, ReadLine line_plain)])
           (read_arduino_start [] [])))
   \<and> link (run ((env_quiet, OpenOk) # replicate 10 (env_quiet, ReadLine []))
              (read_arduino_start [] [])) = Discovering
   \<and> \<not> ser_open (run ((env_quiet, OpenOk) # replicate 10 (env_quiet, ReadLine []))
              (read_arduino_start [] []))
   \<and> status (current_data
        (run ((env_quiet, OpenOk) # replicate 10 (env_quiet, ReadLine []))
              (read_arduino_start [] []))) = status_no_data
   \<and> \<not> connected (current_data
        (run [(env_quiet, FindNone), (env_quiet, OpenOk),
              (env_quiet, InWaitingZero), (env_quiet, IOSerialException),
              (env_quiet, OpenRaised)]
           (read_arduino_start [] [])))"
proof -
  let ?e = env_quiet
  let ?st = "read_arduino_start [] []"
  let ?evs = "[(?e, FindNone), (?e, OpenOk), (?e, InWaitingZero), (?e, IOSerialException),
               (?e, OpenRaised)]"
  have h1: "link ?st = Discovering" by (simp add: read_arduino_start_def)
  have h2: "\<not> connected (current_data ?st)" by (simp add: read_arduino_start_def)
  have h3: "\<forall>x\<in>set (replicate 3 (?e, InWaitingZero)). snd x = InWaitingZero \<or> snd x = ReadLine []"
    by simp
  have h4: "length (replicate 3 (?e, InWaitingZero)) < 10" by simp
  have h5: "\<forall>x\<in>set (replicate 10 (?e, ReadLine [])). snd x = InWaitingZero \<or> snd x = ReadLine []"
    by simp
  have h6: "length (replicate 10 (?e, ReadLine [])) = 10" by simp
  have h7: "line_plain \<noteq> []" by (simp add: line_plain_def)
  have h8: "\<forall>x\<in>set ?evs. \<forall>l. snd x = ReadLine l \<longrightarrow> l = []" by simp
  show ?thesis
    using probing_confirms_liveness [OF h1 h2 h3 h4 h5 h6 h7 h8, of ?e "env_with line_plain data_plain"]
      h1 h2 h4 h6
    by (simp del: replicate.simps replicate_Suc run.simps)
qed

section \<open>The line that ends probing\<close>

text \<open>
  C10. The first non-empty line seen while probing only sets \<^verbatim>\<open>arduino_found\<close>, the
  connectivity flag and the status, and moves the thread to the read loop. The result is the
  same whatever \<^verbatim>\<open>json.loads\<close> would make of the line (the line is never decoded); no row is
  written and no reading field of the snapshot changes.
\<close>

theorem probing_line_is_discarded:
  assumes "link st = Probing n" and "line \<noteq> []"
  shows "step env (ReadLine line) st =
           st\<lparr>arduino_found := True,
              current_data := (current_data st)\<lparr>connected := True, status := status_connected\<rparr>,
              link := Connected\<rparr>
       \<and> step env (ReadLine line) st = step env' (ReadLine line) st
       \<and> readings (step env (ReadLine line) st) = readings st
       \<and> alerts (step env (ReadLine line) st) = alerts st
       \<and> temperature (current_data (step env (ReadLine line) st)) = temperature (current_data st)
       \<and> humidity (current_data (step env (ReadLine line) st)) = humidity (current_data st)
       \<and> dust (current_data (step env (ReadLine line) st)) = dust (current_data st)
       \<and> pressure (current_data (step env (ReadLine line) st)) = pressure (current_data st)
       \<and> time (current_data (step env (ReadLine line) st)) = time (current_data st)
       \<and> alert (current_data (step env (ReadLine line) st)) = alert (current_data st)
       \<and> tracker (current_data (step env (ReadLine line) st)) = tracker (current_data st)"
  using assms by (simp add: step_def probe_iteration_def now_connected_def)

lemma probing_state_eq:
  "step env OpenOk (read_arduino_start rs als) =
     \<lparr> current_data = current_data_init\<lparr>connected := False, status := status_searching\<rparr>,
       readings = rs, alerts = als, link = Probing 0, ser_open = True, arduino_found = False,
       slept = 20 \<rparr>"
  by (simp add: read_arduino_start_def step_def discover_iteration_def sleep_def)

theorem probing_line_is_discarded_witness:
  "link (step env_quiet OpenOk (read_arduino_start [] [])) = Probing 0
   \<and> line_plain \<noteq> []
   \<and> json_loads (env_with line_plain data_plain) line_plain = Inr data_plain
   \<and> readings (step (env_with line_plain data_plain) (ReadLine line_plain)
        (step env_quiet OpenOk (read_arduino_start [] []))) = []
   \<and> alerts (step (env_with line_plain data_plain) (ReadLine line_plain)
        (step env_quiet OpenOk (read_arduino_start [] []))) = []
   \<and> temperature (current_data (step (env_with line_plain data_plain) (ReadLine line_plain)
        (step env_quiet OpenOk (read_arduino_start [] [])))) = JNum (Finite 0)
   \<and> link (step (env_with line_plain data_plain) (ReadLine line_plain)
        (step env_quiet OpenOk (read_arduino_start [] []))) = Connected"
proof -
  let ?p = "step env_quiet OpenOk (read_arduino_start [] [])"
  have h1: "link ?p = Probing 0" by (simp add: probing_state_eq)
  have h2: "line_plain \<noteq> []" by (simp add: line_plain_def)
  show ?thesis
    using probing_line_is_discarded [OF h1 h2, of "env_with line_plain data_plain"] h1 h2
    by (simp add: probing_state_eq loads_one_same current_data_init_def)
qed

section \<open>An I/O error in the read loop\<close>

text \<open>
  C6. When the port raises inside the read loop, the handler sets the connectivity flag to
  false and the status to \<^verbatim>\<open>Connection lost\<close> and breaks out to discovery. It does not call
  \<^verbatim>\<open>ser.close()\<close>: the handle is as open afterwards as it was before, unlike on the no-data
  path of probing, which closes it.
\<close>

theorem read_error_leaves_port_open:
  assumes "link st = Connected" and "ev = IOSerialException \<or> ev = IORaised"
  shows "connected (current_data (step env ev st)) = False
       \<and> status (current_data (step env ev st)) = status_connection_lost
       \<and> link (step env ev st) = Discovering
       \<and> ser_open (step env ev st) = ser_open st"
  using assms by (auto simp: step_def read_iteration_def connection_lost_def)

theorem read_error_leaves_port_open_witness:
  "link connected_state = Connected
   \<and> ser_open connected_state
   \<and> connected (current_data (step env_quiet IOSerialException connected_state)) = False
   \<and> status (current_data (step env_quiet IOSerialException connected_state)) =
       ''Connection lost''
   \<and> link (step env_quiet IOSerialException connected_state) = Discovering
   \<and> ser_open (step env_quiet IOSerialException connected_state) = True"
proof -
  have h1: "link connected_state = Connected" by (simp add: connected_state_eq)
  have h2: "IOSerialException = IOSerialException \<or> IOSerialException = IORaised" by simp
  show ?thesis
    using read_error_leaves_port_open [OF h1 h2, of env_quiet] h1
    by (simp add: connected_state_eq status_connection_lost_def)
qed

section \<open>Lines that are not readings\<close>

text \<open>
  An empty line, a line \<^verbatim>\<open>json.loads\<close> rejects, and a dict without \<^verbatim>\<open>temp\<close> or without
  \<^verbatim>\<open>hum\<close> keep the thread in the read loop, write no row and change at most the alert text
  of the snapshot (a dict with an \<^verbatim>\<open>error\<close> key does).
\<close>

lemma handle_data_not_reading:
  assumes "''temp'' \<notin> fst ` set kvs \<or> ''hum'' \<notin> fst ` set kvs"
  shows "handle_data env (JObj kvs) st = (Continue, st)
       \<or> handle_data env (JObj kvs) st = (FallThrough, st)
       \<or> (\<exists>err. handle_data env (JObj kvs) st =
                  (Continue, st\<lparr>current_data := (current_data st)\<lparr>alert := err\<rparr>\<rparr>))"
  using assms
  by (auto simp: handle_data_def both_in_def key_in_iff split: option.splits)

lemma malformed_line_keeps_link:
  assumes "link st = Connected"
      and "line = [] \<or> json_loads env line = Inl JSONDecodeError
           \<or> (\<exists>kvs. json_loads env line = Inr (JObj kvs)
                \<and> (''temp'' \<notin> fst ` set kvs \<or> ''hum'' \<notin> fst ` set kvs))"
  shows "link (step env (ReadLine line) st) = Connected
       \<and> readings (step env (ReadLine line) st) = readings st
       \<and> alerts (step env (ReadLine line) st) = alerts st
       \<and> (\<exists>a. current_data (step env (ReadLine line) st) = (current_data st)\<lparr>alert := a\<rparr>)"
proof -
  have same: "\<exists>a. current_data st = (current_data st)\<lparr>alert := a\<rparr>"
    by (rule exI [of _ "alert (current_data st)"]) simp
  consider (empty) "line = []"
    | (bad) "line \<noteq> []" "json_loads env line = Inl JSONDecodeError"
    | (dict) kvs where "line \<noteq> []" "json_loads env line = Inr (JObj kvs)"
        "''temp'' \<notin> fst ` set kvs \<or> ''hum'' \<notin> fst ` set kvs"
    using assms(2) by blast
  then show ?thesis
  proof cases
    case empty
    then show ?thesis using assms(1) same by (simp add: step_def read_iteration_def)
  next
    case bad
    then show ?thesis using assms(1) same by (simp add: step_def read_iteration_def)
  next
    case dict
    show ?thesis
      using handle_data_not_reading [OF dict(3), of env st] assms(1) same
      by (auto simp: read_line_step [OF assms(1) dict(1,2)] sleep_def)
  qed
qed

text \<open>
  C3. A line that is valid JSON but not an object is not skipped: when \<^verbatim>\<open>json.loads\<close>
  returns \<^verbatim>\<open>None\<close>, a bool or a number, the test \<^verbatim>\<open>'status' in data\<close> raises \<^verbatim>\<open>TypeError\<close>,
  which only the handler of the read loop catches: the flag goes down, the status becomes
  \<^verbatim>\<open>Connection lost\<close> and the thread returns to discovery. (Empty lines, lines the decoder
  rejects and dicts without \<^verbatim>\<open>temp\<close> or \<^verbatim>\<open>hum\<close> are skipped, as shown just before.)
\<close>

theorem scalar_line_drops_link:
  assumes "link st = Connected" and "line \<noteq> []" and "json_loads env line = Inr v"
      and "v = JNull \<or> v = JBool b \<or> v = JNum x"
  shows "step env (ReadLine line) st = connection_lost st
       \<and> link (step env (ReadLine line) st) = Discovering
       \<and> connected (current_data (step env (ReadLine line) st)) = False
       \<and> status (current_data (step env (ReadLine line) st)) = status_connection_lost"
  using assms(4)
  by (auto simp: read_line_step [OF assms(1,2,3)] handle_data_def both_in_def connection_lost_def)

theorem scalar_line_drops_link_witness:
  "link connected_state = Connected \<and> ''5'' \<noteq> []
   \<and> json_loads (env_with ''5'' (JNum (Finite 5))) ''5'' = Inr (JNum (Finite 5))
   \<and> link (step (env_with ''5'' (JNum (Finite 5))) (ReadLine ''5'') connected_state) = Discovering
   \<and> connected (current_data
        (step (env_with ''5'' (JNum (Finite 5))) (ReadLine ''5'') connected_state)) = False
   \<and> status (current_data
        (step (env_with ''5'' (JNum (Finite 5))) (ReadLine ''5'') connected_state)) =
       ''Connection lost''"
proof -
  have h1: "link connected_state = Connected" by (simp add: connected_state_eq)
  have h2: "''5'' \<noteq> []" by simp
  have h3: "json_loads (env_with ''5'' (JNum (Finite 5))) ''5'' = Inr (JNum (Finite 5))"
    by (rule loads_one_same)
  have h4: "JNum (Finite 5) = JNull \<or> JNum (Finite 5) = JBool True \<or> JNum (Finite 5) = JNum (Finite 5)"
    by simp
  show ?thesis
    using scalar_line_drops_link [OF h1 h2 h3 h4] h1 h3
    by (simp add: status_connection_lost_def connection_lost_def)
qed





section \<open>The stored reading\<close>

lemma reading_step:
  assumes "link st = Connected" and "line \<noteq> []" and "json_loads env line = Inr (JObj kvs)"
      and "\<not> (''status'' \<in> fst ` set kvs \<and> ''msg'' \<in> fst ` set kvs)"
      and "''error'' \<notin> fst ` set kvs"
      and "map_of kvs ''temp'' = Some (JNum t)" and "map_of kvs ''hum'' = Some (JNum h)"
      and "dict_get kvs ''dust'' (JNum (Finite 0)) = JNum d"
      and "dict_get kvs ''pressure'' (JNum (Finite 0)) = JNum p"
      and "dict_get kvs ''tracker'' (tracker (current_data st)) = JObj trk"
  shows "step env (ReadLine line) st = sleep 1 (snd (publish_reading env (JObj kvs) st))
       \<and> fst (publish_reading env (JObj kvs) st) = FallThrough"
  by (simp add: read_line_step [OF assms(1,2,3)] handle_data_reading [OF assms(4,5,6,7)]
        publish_reading_dict [OF assms(6,7,8,9,10)])

lemma plain_reading_step:
  "step (env_with line_plain data_plain) (ReadLine line_plain) connected_state =
     \<lparr> current_data =
         \<lparr> temperature = JNum (Finite 20),
           humidity = JNum (Finite 50),
           dust = JNum (Finite 0),
           pressure = JNum (Finite 0),
           time = ''12:00:00'',
           status = status_active,
           alert = JStr msg_abnormal_pressure,
           connected = True,
           tracker = JObj
             [(''angle'', JNum (Finite 90)), (''ldr_left'', JNum (Finite 0)),
              (''ldr_right'', JNum (Finite 0)), (''diff'', JNum (Finite 0)),
              (''action'', JStr ''CENTER''), (''status'', JStr ''INITIALIZING'')] \<rparr>,
       readings =
         [\<lparr> r_timestamp = 1000,
            r_temperature = JNum (Finite 20),
            r_humidity = JNum (Finite 50),
            r_dust_density = JNum (Finite 0),
            r_air_pressure = JNum (Finite 0),
            r_tracker_angle = JNum (Finite 90),
            r_ldr_left = JNum (Finite 0),
            r_ldr_right = JNum (Finite 0),
            r_light_diff = JNum (Finite 0),
            r_tracker_status = JStr ''INITIALIZING'',
            r_status = ''OK'' \<rparr>],
       alerts =
         [\<lparr> a_timestamp = 1000, a_message = ''Pressure: <value>kPa'', a_level = ''WARNING'' \<rparr>],
       link = Connected, ser_open = True, arduino_found = True, slept = 21 \<rparr>"
proof -
  let ?kvs = "[(''temp'', JNum (Finite 20)), (''hum'', JNum (Finite 50))]"
  let ?env = "env_with line_plain data_plain"
  let ?trk = "[(''angle'', JNum (Finite 90)), (''ldr_left'', JNum (Finite 0)),
          (''ldr_right'', JNum (Finite 0)), (''diff'', JNum (Finite 0)),
          (''action'', JStr ''CENTER''), (''status'', JStr ''INITIALIZING'')]"
  have h1: "link connected_state = Connected" by (simp add: connected_state_eq)
  have h2: "line_plain \<noteq> []" by (simp add: line_plain_def)
  have h3: "json_loads ?env line_plain = Inr (JObj ?kvs)"
    by (simp add: loads_one_same data_plain_def)
  have h4: "\<not> (''status'' \<in> fst ` set ?kvs \<and> ''msg'' \<in> fst ` set ?kvs)" by simp
  have h5: "''error'' \<notin> fst ` set ?kvs" by simp
  have h6: "map_of ?kvs ''temp'' = Some (JNum (Finite 20))" by simp
  have h7: "map_of ?kvs ''hum'' = Some (JNum (Finite 50))" by simp
  have h8: "dict_get ?kvs ''dust'' (JNum (Finite 0)) = JNum (Finite 0)" by (simp add: dict_get_def)
  have h9: "dict_get ?kvs ''pressure'' (JNum (Finite 0)) = JNum (Finite 0)"
    by (simp add: dict_get_def)
  have h10: "dict_get ?kvs ''tracker'' (tracker (current_data connected_state)) = JObj ?trk"
    by (simp add: dict_get_def connected_state_eq current_data_init_def)
  have k: "evaluate_spec (Finite 20) (Finite 50) (Finite 0) (Finite 0) = AbnormalPressure"
    by (simp add: evaluate_spec_def)
  have eq: "step ?env (ReadLine line_plain) connected_state =
          sleep 1 (snd (publish_reading ?env (JObj ?kvs) connected_state))"
    using reading_step [OF h1 h2 h3 h4 h5 h6 h7 h8 h9 h10] by simp
  show ?thesis
    unfolding eq publish_reading_dict [OF h6 h7 h8 h9 h10] k
    by (simp add: sleep_def env_with_def print_any_def dict_get_def connected_state_eq
          current_data_init_def)
qed




section \<open>Disconnection\<close>

text \<open>
  C8 (as amended). On every path by which the thread finds the device gone (no port,
  discovery or open raising, the probing loop timing out or raising, the read loop raising
  on the port), the snapshot changes in two fields only: the connectivity flag becomes false
  and the status becomes the text of that path. Temperature, humidity, dust, pressure, time,
  alert and tracker keep the values of the last published reading.
\<close>

theorem disconnection_keeps_last_reading:
  assumes "(link st = Discovering
              \<and> (ev = FindNone \<or> ev = FindRaised \<or> ev = OpenSerialException \<or> ev = OpenRaised))
         \<or> (link st = Probing n
              \<and> (ev = IOSerialException \<or> ev = IORaised
                   \<or> (n = 9 \<and> (ev = InWaitingZero \<or> ev = ReadLine []))))
         \<or> (link st = Connected \<and> (ev = IOSerialException \<or> ev = IORaised))"
  shows "current_data (step env ev st) =
           (current_data st)\<lparr>connected := False,
                              status := status (current_data (step env ev st))\<rparr>
       \<and> status (current_data (step env ev st)) \<in>
           {status_not_connected, status_disconnected, status_serial_error, status_no_data,
            status_connection_lost}
       \<and> link (step env ev st) = Discovering"
  using assms
  by (auto simp: step_def discover_iteration_def probe_iteration_def probe_next_def
        read_iteration_def no_port_def no_data_def serial_error_def connection_error_def
        connection_lost_def sleep_def Let_def)

theorem disconnection_keeps_last_reading_witness:
  "link (step (env_with line_plain data_plain) (ReadLine line_plain) connected_state) = Connected
   \<and> current_data
       (step env_quiet IORaised
          (step (env_with line_plain data_plain) (ReadLine line_plain) connected_state)) =
     (current_data (step (env_with line_plain data_plain) (ReadLine line_plain) connected_state))
       \<lparr>connected := False, status := status_connection_lost\<rparr>
   \<and> temperature (current_data
       (step env_quiet IORaised
          (step (env_with line_plain data_plain) (ReadLine line_plain) connected_state))) =
     JNum (Finite 20)"
proof -
  let ?s = "step (env_with line_plain data_plain) (ReadLine line_plain) connected_state"
  have l: "link ?s = Connected" by (simp add: plain_reading_step)
  have h: "(link ?s = Discovering
              \<and> (IORaised = FindNone \<or> IORaised = FindRaised \<or> IORaised = OpenSerialException
                   \<or> IORaised = OpenRaised))
         \<or> (link ?s = Probing 0
              \<and> (IORaised = IOSerialException \<or> IORaised = IORaised
                   \<or> (0 = 9 \<and> (IORaised = InWaitingZero \<or> IORaised = ReadLine []))))
         \<or> (link ?s = Connected \<and> (IORaised = IOSerialException \<or> IORaised = IORaised))"
    using l by simp
  have st: "status (current_data (step env_quiet IORaised ?s)) = status_connection_lost"
    using l by (simp add: step_def read_iteration_def connection_lost_def)
  have t: "temperature (current_data ?s) = JNum (Finite 20)" by (simp add: plain_reading_step)
  have "current_data (step env_quiet IORaised ?s) =
          (current_data ?s)\<lparr>connected := False, status := status_connection_lost\<rparr>"
    using disconnection_keeps_last_reading [OF h, of env_quiet] st by simp
  then show ?thesis using l t by simp
qed

text \<open>
  C8 as stated fails on the run: open, first line, \<^verbatim>\<open>{"temp":20,"hum":50}\<close>, I/O error, no
  port found. The snapshot still shows temperature 20, not the initial 0.
\<close>

theorem disconnection_no_reset_counterexample:
  "temperature (current_data
     (run [(env_quiet, OpenOk), (env_quiet, ReadLine ''boot''),
           (env_with line_plain data_plain, ReadLine line_plain),
           (env_quiet, IORaised), (env_quiet, FindNone)]
        (read_arduino_start [] []))) \<noteq> temperature current_data_init"
proof -
  let ?s = "step (env_with line_plain data_plain) (ReadLine line_plain) connected_state"
  have "run [(env_quiet, OpenOk), (env_quiet, ReadLine ''boot''),
           (env_with line_plain data_plain, ReadLine line_plain),
           (env_quiet, IORaised), (env_quiet, FindNone)]
        (read_arduino_start [] []) =
        step env_quiet FindNone (step env_quiet IORaised ?s)"
    by (simp add: connected_state_def)
  then show ?thesis
    unfolding plain_reading_step
    by (simp add: step_def read_iteration_def connection_lost_def discover_iteration_def
          no_port_def sleep_def current_data_init_def)
qed

section \<open>History with an empty window\<close>

text \<open>
  C9. With \<^verbatim>\<open>hours = 0\<close> the query keeps the rows whose timestamp is later than now; when
  every stored timestamp is at or before now and SQLite does not raise, the answer is the
  empty list.
\<close>

theorem zero_window_history_empty:
  assumes "\<forall>row\<in>set (readings st). r_timestamp row \<le> now"
  shows "get_history None now 0 st = Inr []"
proof -
  have "filter (\<lambda>row. now - int 0 * 3600 < r_timestamp row) (readings st) = []"
    using assms by (auto simp: filter_empty_conv)
  then show ?thesis by (simp add: get_history_def select_history_def)
qed

theorem zero_window_history_empty_witness:
  "map r_timestamp (readings (step (env_with line_plain data_plain) (ReadLine line_plain)
        connected_state)) = [1000]
   \<and> get_history None 1000 0
       (step (env_with line_plain data_plain) (ReadLine line_plain) connected_state) = Inr []
   \<and> map h_timestamp (projr (get_history None 1000 1
       (step (env_with line_plain data_plain) (ReadLine line_plain) connected_state))) = [1000]"
proof -
  let ?s = "step (env_with line_plain data_plain) (ReadLine line_plain) connected_state"
  have h: "\<forall>row\<in>set (readings ?s). r_timestamp row \<le> 1000"
    by (simp add: plain_reading_step)
  have rs: "map r_timestamp (readings ?s) = [1000]"
    by (simp add: plain_reading_step)
  have one: "map h_timestamp (projr (get_history None 1000 1 ?s)) = [1000]"
    by (simp add: plain_reading_step get_history_def select_history_def history_item_of_def)
  show ?thesis using zero_window_history_empty [OF h] rs one by simp
qed

end
